theory Spec2Isabelle
  imports Main
begin

section \<open>The IT magazine advert system (it\_magazine.py)\<close>

text \<open>
  The Python classes of \<^verbatim>\<open>it_magazine.py\<close> as a shallow embedding.

  \<^item> An \<^verbatim>\<open>Advert\<close> object is mutable and shared by reference between the stores of the
    staff objects, so the adverts live in a heap (a list of records, an object's address
    being its index) and every store holds addresses.
  \<^item> A method takes the receiver's record and the heap and returns its outcome together
    with the receiver and the heap as the call leaves them. A raised exception is the
    outcome \<open>Inl\<close>; the state returned next to it is the state at the moment of the raise.
  \<^item> Every exception the classes raise themselves is a \<^verbatim>\<open>ValueError\<close> carrying a message.
  \<^item> Console output (\<^verbatim>\<open>print\<close>) is not part of the model.
\<close>

subsection \<open>Values, errors, Python's \<^verbatim>\<open>str\<close> on integers\<close>

type_synonym addr = nat

datatype py_value = PyInt int | PyBool bool | PyStr string | PyNone | PyObj addr

datatype error = ValueError string

fun digits_of :: "nat \<Rightarrow> string" where
  "digits_of n =
     (if n < 10 then [char_of (48 + n)]
      else digits_of (n div 10) @ [char_of (48 + n mod 10)])"

declare digits_of.simps [simp del]

definition str_int :: "int \<Rightarrow> string" where
  "str_int i = (if i < 0 then CHR ''-'' # digits_of (nat (- i)) else digits_of (nat i))"

text \<open>\<^verbatim>\<open>str(v)\<close> for the values a staff id is tested with.\<close>

fun py_str :: "py_value \<Rightarrow> string" where
  "py_str (PyInt i) = str_int i"
| "py_str (PyBool b) = (if b then ''True'' else ''False'')"
| "py_str (PyStr s) = s"
| "py_str PyNone = ''None''"
| "py_str (PyObj a) = ''<object>''"

text \<open>\<^verbatim>\<open>isinstance(v, int)\<close>: \<^verbatim>\<open>bool\<close> is a subclass of \<^verbatim>\<open>int\<close>.\<close>

fun isinstance_int :: "py_value \<Rightarrow> bool" where
  "isinstance_int (PyInt i) = True"
| "isinstance_int (PyBool b) = True"
| "isinstance_int _ = False"

subsection \<open>\<^verbatim>\<open>ITMagazineStaff\<close> and the class-level registry of staff ids\<close>

record ITMagazineStaff =
  staff_id :: py_value
  salary :: int
  dept :: string

definition valid_departments :: "string list" where
  "valid_departments = [''Marketing'', ''Editing'', ''Processing Centre'']"

text \<open>
  \<^verbatim>\<open>ITMagazineStaff.__init__\<close>. The first argument is the class attribute
  \<^verbatim>\<open>_used_staff_ids\<close>; the call returns it as it leaves it. The salary is an integer,
  as the signature says; the staff id is any value, since the constructor tests its type
  itself. (For an integer of more than 4300 digits \<^verbatim>\<open>str\<close> itself raises the
  \<^verbatim>\<open>ValueError\<close>, with a message of its own; the model gives the constructor's message
  there.)
\<close>

definition ITMagazineStaff_init ::
  "py_value set \<Rightarrow> py_value \<Rightarrow> int \<Rightarrow> string \<Rightarrow> (error + ITMagazineStaff) \<times> py_value set" where
  "ITMagazineStaff_init used sid sal d =
     (if \<not> isinstance_int sid \<or> length (py_str sid) \<noteq> 6 then
        (Inl (ValueError ''Staff ID must be a 6-digit integer.''), used)
      else if \<not> (10000 \<le> sal \<and> sal \<le> 1000000) then
        (Inl (ValueError ''Salary must be between 10,000 and 1,000,000.''), used)
      else if d \<notin> set valid_departments then
        (Inl (ValueError ''Department must be one of ['Marketing', 'Editing', 'Processing Centre'].''), used)
      else if sid \<in> used then
        (Inl (ValueError (''Staff ID '' @ py_str sid @ '' is already in use.'')), used)
      else
        (Inr \<lparr>staff_id = sid, salary = sal, dept = d\<rparr>, insert sid used))"

subsection \<open>\<^verbatim>\<open>Advert\<close>\<close>

record Advert =
  advert_id :: string
  client_name :: string
  size' :: string
  placement :: string
  publication_date :: string
  status :: string

definition Advert_init ::
  "string \<Rightarrow> string \<Rightarrow> string \<Rightarrow> string \<Rightarrow> string \<Rightarrow> string \<Rightarrow> Advert" where
  "Advert_init aid cn sz pl pd st =
     \<lparr>advert_id = aid, client_name = cn, size' = sz, placement = pl,
      publication_date = pd, status = st\<rparr>"

text \<open>
  \<^verbatim>\<open>if size:\<close> tests the truth value of the argument: \<^verbatim>\<open>None\<close> (the default of an
  omitted argument) and the empty string are both false.
\<close>

fun truthy :: "string option \<Rightarrow> bool" where
  "truthy None = False"
| "truthy (Some s) = (s \<noteq> [])"

definition update_details ::
  "Advert \<Rightarrow> string option \<Rightarrow> string option \<Rightarrow> string option \<Rightarrow> Advert" where
  "update_details ad sz pl pd =
     (let ad1 = (if truthy sz then ad\<lparr>size' := the sz\<rparr> else ad);
          ad2 = (if truthy pl then ad1\<lparr>placement := the pl\<rparr> else ad1);
          ad3 = (if truthy pd then ad2\<lparr>publication_date := the pd\<rparr> else ad2)
      in ad3)"

definition Advert_cancel_advert :: "Advert \<Rightarrow> Advert" where
  "Advert_cancel_advert ad = ad\<lparr>status := ''Cancelled''\<rparr>"

subsection \<open>\<^verbatim>\<open>datetime.strptime(date_string, "%Y-%m-%d")\<close>\<close>

text \<open>
  \<^verbatim>\<open>_is_valid_date\<close> asks Python's standard library whether \<^verbatim>\<open>strptime\<close> accepts the
  string. For this fixed format the library matches the regular expression
  \<^verbatim>\<open>(\d\d\d\d)-(1[0-2]|0[1-9]|[1-9])-(3[0-1]|[1-2]\d|0[1-9]|[1-9]| [1-9])\<close>
  at the start of the string, trying the alternatives of a group from left to right and
  backtracking, rejects a match that leaves characters over, and then builds a
  \<^verbatim>\<open>date\<close>, which rejects the year 0 and a day the month does not have. Each group is
  modelled by the list of its possible matches in the order the matcher tries them: the
  value read and the rest of the string. Characters are code points below 256, among
  which the digits are \<^verbatim>\<open>0\<close> to \<^verbatim>\<open>9\<close> only.
\<close>

definition is_digit :: "char \<Rightarrow> bool" where
  "is_digit c = (48 \<le> (of_char c :: nat) \<and> (of_char c :: nat) \<le> 57)"

definition digit_val :: "char \<Rightarrow> nat" where
  "digit_val c = of_char c - 48"

definition in_range :: "char \<Rightarrow> nat \<Rightarrow> nat \<Rightarrow> bool" where
  "in_range c lo hi = (is_digit c \<and> lo \<le> digit_val c \<and> digit_val c \<le> hi)"

fun re_Y :: "string \<Rightarrow> (nat \<times> string) list" where
  "re_Y (a # b # c # d # r) =
     (if is_digit a \<and> is_digit b \<and> is_digit c \<and> is_digit d
      then [(1000 * digit_val a + 100 * digit_val b + 10 * digit_val c + digit_val d, r)]
      else [])"
| "re_Y _ = []"

fun re_lit :: "char \<Rightarrow> string \<Rightarrow> string list" where
  "re_lit x (c # r) = (if c = x then [r] else [])"
| "re_lit x [] = []"

text \<open>One alternative made of two characters, and one made of a single digit.\<close>

fun alt2 :: "(char \<Rightarrow> bool) \<Rightarrow> (char \<Rightarrow> bool) \<Rightarrow> string \<Rightarrow> (nat \<times> string) list" where
  "alt2 p q (a # b # r) =
     (if p a \<and> q b then [((if is_digit a then 10 * digit_val a else 0) + digit_val b, r)] else [])"
| "alt2 p q _ = []"

fun alt1 :: "string \<Rightarrow> (nat \<times> string) list" where
  "alt1 (a # r) = (if in_range a 1 9 then [(digit_val a, r)] else [])"
| "alt1 [] = []"

definition re_m :: "string \<Rightarrow> (nat \<times> string) list" where
  "re_m s =
     alt2 (\<lambda>a. a = CHR ''1'') (\<lambda>b. in_range b 0 2) s
     @ alt2 (\<lambda>a. a = CHR ''0'') (\<lambda>b. in_range b 1 9) s
     @ alt1 s"

definition re_d :: "string \<Rightarrow> (nat \<times> string) list" where
  "re_d s =
     alt2 (\<lambda>a. a = CHR ''3'') (\<lambda>b. in_range b 0 1) s
     @ alt2 (\<lambda>a. in_range a 1 2) is_digit s
     @ alt2 (\<lambda>a. a = CHR ''0'') (\<lambda>b. in_range b 1 9) s
     @ alt1 s
     @ alt2 (\<lambda>a. a = CHR '' '') (\<lambda>b. in_range b 1 9) s"

definition re_Ymd :: "string \<Rightarrow> (nat \<times> nat \<times> nat \<times> string) list" where
  "re_Ymd s =
     concat (map (\<lambda>(y, r1).
       concat (map (\<lambda>r2.
         concat (map (\<lambda>(m, r3).
           concat (map (\<lambda>r4.
             map (\<lambda>(d, r5). (y, m, d, r5)) (re_d r4))
           (re_lit CHR ''-'' r3)))
         (re_m r2)))
       (re_lit CHR ''-'' r1)))
     (re_Y s))"

definition is_leap :: "nat \<Rightarrow> bool" where
  "is_leap y = (y mod 4 = 0 \<and> (y mod 100 \<noteq> 0 \<or> y mod 400 = 0))"

definition days_in_month :: "nat \<Rightarrow> nat \<Rightarrow> nat" where
  "days_in_month y m =
     (if m = 2 then (if is_leap y then 29 else 28)
      else if m \<in> {4, 6, 9, 11} then 30 else 31)"

text \<open>The result of \<^verbatim>\<open>strptime\<close>: the date read, or \<open>None\<close> where it raises \<^verbatim>\<open>ValueError\<close>.\<close>

definition strptime_Ymd :: "string \<Rightarrow> (nat \<times> nat \<times> nat) option" where
  "strptime_Ymd s =
     (case re_Ymd s of
        [] \<Rightarrow> None
      | (y, m, d, rest) # _ \<Rightarrow>
          if rest \<noteq> [] then None
          else if 1 \<le> y \<and> 1 \<le> m \<and> m \<le> 12 \<and> 1 \<le> d \<and> d \<le> days_in_month y m
          then Some (y, m, d) else None)"

definition is_valid_date :: "string \<Rightarrow> bool" where
  "is_valid_date date_string = (strptime_Ymd date_string \<noteq> None)"

subsection \<open>\<^verbatim>\<open>MarketingDeptStaff\<close>\<close>

record MarketingDeptStaff = ITMagazineStaff +
  adverts :: "string \<rightharpoonup> addr"

definition MarketingDeptStaff_init ::
  "py_value set \<Rightarrow> py_value \<Rightarrow> int \<Rightarrow> string \<Rightarrow> (error + MarketingDeptStaff) \<times> py_value set" where
  "MarketingDeptStaff_init used sid sal d =
     (case ITMagazineStaff_init used sid sal d of
        (Inl e, used') \<Rightarrow> (Inl e, used')
      | (Inr s, used') \<Rightarrow>
          (Inr \<lparr>staff_id = staff_id s, salary = salary s, dept = dept s, adverts = Map.empty\<rparr>,
           used'))"

definition valid_sizes :: "string list" where
  "valid_sizes = [''Full Page'', ''Half Page'', ''Quarter Page'']"

text \<open>
  \<^verbatim>\<open>create_advert\<close> returns the new \<^verbatim>\<open>Advert\<close> object: its address in the heap, where
  the constructor puts it behind the objects that exist already.
\<close>

definition create_advert ::
  "MarketingDeptStaff \<Rightarrow> Advert list \<Rightarrow> string \<Rightarrow> string \<Rightarrow> string \<Rightarrow> string \<Rightarrow> string
     \<Rightarrow> (error + addr) \<times> MarketingDeptStaff \<times> Advert list" where
  "create_advert self h aid cn sz pl pd =
     (if aid = [] then (Inl (ValueError ''Advert ID cannot be empty.''), self, h)
      else if cn = [] then (Inl (ValueError ''Client name cannot be empty.''), self, h)
      else if sz \<notin> set valid_sizes then
        (Inl (ValueError (''Invalid size: '' @ sz
           @ ''. Must be one of ['Full Page', 'Half Page', 'Quarter Page'].'')), self, h)
      else if pl = [] then (Inl (ValueError ''Placement cannot be empty.''), self, h)
      else if \<not> is_valid_date pd then
        (Inl (ValueError (''Invalid publication date: '' @ pd
           @ ''. Must be in YYYY-MM-DD format.'')), self, h)
      else if adverts self aid \<noteq> None then
        (Inl (ValueError ''Advert ID already exists.''), self, h)
      else
        (Inr (length h),
         self\<lparr>adverts := (adverts self)(aid \<mapsto> length h)\<rparr>,
         h @ [Advert_init aid cn sz pl pd ''Pending'']))"

definition update_advert ::
  "MarketingDeptStaff \<Rightarrow> Advert list \<Rightarrow> string \<Rightarrow> string option \<Rightarrow> string option \<Rightarrow> string option
     \<Rightarrow> (error + string) \<times> MarketingDeptStaff \<times> Advert list" where
  "update_advert self h aid sz pl pd =
     (case adverts self aid of
        None \<Rightarrow> (Inl (ValueError ''Advert ID does not exist.''), self, h)
      | Some a \<Rightarrow>
          (Inr (''Advert '' @ aid @ '' updated successfully.''), self,
           h[a := update_details (h ! a) sz pl pd]))"

definition cancel_advert ::
  "MarketingDeptStaff \<Rightarrow> Advert list \<Rightarrow> string
     \<Rightarrow> (error + string) \<times> MarketingDeptStaff \<times> Advert list" where
  "cancel_advert self h aid =
     (case adverts self aid of
        None \<Rightarrow> (Inl (ValueError ''Advert ID does not exist.''), self, h)
      | Some a \<Rightarrow>
          (Inr (''Advert '' @ aid @ '' cancelled successfully.''), self,
           h[a := Advert_cancel_advert (h ! a)]))"

subsection \<open>\<^verbatim>\<open>Editor\<close>\<close>

record Editor = ITMagazineStaff +
  magazine_issues :: "string \<rightharpoonup> addr list"

definition Editor_init ::
  "py_value set \<Rightarrow> py_value \<Rightarrow> int \<Rightarrow> string \<Rightarrow> (error + Editor) \<times> py_value set" where
  "Editor_init used sid sal d =
     (case ITMagazineStaff_init used sid sal d of
        (Inl e, used') \<Rightarrow> (Inl e, used')
      | (Inr s, used') \<Rightarrow>
          (Inr \<lparr>staff_id = staff_id s, salary = salary s, dept = dept s,
                magazine_issues = Map.empty\<rparr>, used'))"

text \<open>
  \<^verbatim>\<open>update_advert_in_issue(advert, issue_date)\<close>; \<open>a\<close> is the address of the advert
  passed. The generator expression under \<^verbatim>\<open>next\<close> yields the first entry of the issue
  with the advert's id; an \<^verbatim>\<open>Advert\<close> object is always true, so \<^verbatim>\<open>if existing_advert\<close>
  asks whether there is one. The three arguments of \<^verbatim>\<open>update_details\<close> are read from the
  advert before the existing entry is written.
\<close>

definition update_advert_in_issue ::
  "Editor \<Rightarrow> Advert list \<Rightarrow> addr \<Rightarrow> string \<Rightarrow> (error + unit) \<times> Editor \<times> Advert list" where
  "update_advert_in_issue self h a issue_date =
     (if status (h ! a) = ''Cancelled'' then
        (Inl (ValueError ''Cannot add or update a cancelled advert in the magazine.''), self, h)
      else
        let issues = (if magazine_issues self issue_date = None
                      then (magazine_issues self)(issue_date \<mapsto> [])
                      else magazine_issues self);
            entries = the (issues issue_date)
        in case find (\<lambda>ad. advert_id (h ! ad) = advert_id (h ! a)) entries of
             Some existing_advert \<Rightarrow>
               (Inr (), self\<lparr>magazine_issues := issues\<rparr>,
                h[existing_advert := update_details (h ! existing_advert)
                    (Some (size' (h ! a))) (Some (placement (h ! a)))
                    (Some (publication_date (h ! a)))])
           | None \<Rightarrow>
               (Inr (), self\<lparr>magazine_issues := issues(issue_date \<mapsto> entries @ [a])\<rparr>,
                h[a := (h ! a)\<lparr>status := ''Approved''\<rparr>]))"

definition remove_advert_from_issue ::
  "Editor \<Rightarrow> Advert list \<Rightarrow> string \<Rightarrow> string \<Rightarrow> (error + unit) \<times> Editor \<times> Advert list" where
  "remove_advert_from_issue self h aid issue_date =
     (case magazine_issues self issue_date of
        None \<Rightarrow> (Inl (ValueError ''Issue date does not exist.''), self, h)
      | Some entries \<Rightarrow>
          (Inr (),
           self\<lparr>magazine_issues :=
             (magazine_issues self)(issue_date \<mapsto> filter (\<lambda>ad. advert_id (h ! ad) \<noteq> aid) entries)\<rparr>,
           h))"

subsection \<open>\<^verbatim>\<open>ProcessingCentreStaff\<close>\<close>

record ProcessingCentreStaff = ITMagazineStaff +
  stored_adverts :: "addr list"

definition ProcessingCentreStaff_init ::
  "py_value set \<Rightarrow> py_value \<Rightarrow> int \<Rightarrow> string
     \<Rightarrow> (error + ProcessingCentreStaff) \<times> py_value set" where
  "ProcessingCentreStaff_init used sid sal d =
     (case ITMagazineStaff_init used sid sal d of
        (Inl e, used') \<Rightarrow> (Inl e, used')
      | (Inr s, used') \<Rightarrow>
          (Inr \<lparr>staff_id = staff_id s, salary = salary s, dept = dept s, stored_adverts = []\<rparr>,
           used'))"

definition store_advert ::
  "ProcessingCentreStaff \<Rightarrow> Advert list \<Rightarrow> addr
     \<Rightarrow> (error + unit) \<times> ProcessingCentreStaff \<times> Advert list" where
  "store_advert self h a =
     (if status (h ! a) \<noteq> ''Approved'' then
        (Inl (ValueError ''Only approved adverts can be stored.''), self, h)
      else (Inr (), self\<lparr>stored_adverts := stored_adverts self @ [a]\<rparr>, h))"

subsection \<open>Commands\<close>

text \<open>
  A command object holds references to its receiver and, for two of the editor's and the
  processing centre's commands, to an \<^verbatim>\<open>Advert\<close> object. The world is the heap of adverts
  and the staff objects; a command names its receiver by its position among the objects
  of its class.
\<close>

record world =
  heap :: "Advert list"
  marketing_objs :: "MarketingDeptStaff list"
  editor_objs :: "Editor list"
  processing_objs :: "ProcessingCentreStaff list"

datatype command =
    CreateAdvertCommand addr string string string string string
  | UpdateAdvertCommand addr string "string option" "string option" "string option"
  | CancelAdvertCommand addr string
  | UpdateAdvertInIssueCommand addr addr string
  | RemoveAdvertFromIssueCommand addr string string
  | StoreAdvertCommand addr addr

fun execute :: "command \<Rightarrow> world \<Rightarrow> (error + py_value) \<times> world" where
  "execute (CreateAdvertCommand m aid cn sz pl pd) w =
     (case create_advert (marketing_objs w ! m) (heap w) aid cn sz pl pd of
        (Inl e, self', h') \<Rightarrow>
          (Inl e, w\<lparr>heap := h', marketing_objs := (marketing_objs w)[m := self']\<rparr>)
      | (Inr advert, self', h') \<Rightarrow>
          (Inr (PyObj advert), w\<lparr>heap := h', marketing_objs := (marketing_objs w)[m := self']\<rparr>))"
| "execute (UpdateAdvertCommand m aid sz pl pd) w =
     (case update_advert (marketing_objs w ! m) (heap w) aid sz pl pd of
        (Inl e, self', h') \<Rightarrow>
          (Inl e, w\<lparr>heap := h', marketing_objs := (marketing_objs w)[m := self']\<rparr>)
      | (Inr msg, self', h') \<Rightarrow>
          (Inr (PyStr msg), w\<lparr>heap := h', marketing_objs := (marketing_objs w)[m := self']\<rparr>))"
| "execute (CancelAdvertCommand m aid) w =
     (case cancel_advert (marketing_objs w ! m) (heap w) aid of
        (Inl e, self', h') \<Rightarrow>
          (Inl e, w\<lparr>heap := h', marketing_objs := (marketing_objs w)[m := self']\<rparr>)
      | (Inr msg, self', h') \<Rightarrow>
          (Inr (PyStr msg), w\<lparr>heap := h', marketing_objs := (marketing_objs w)[m := self']\<rparr>))"
| "execute (UpdateAdvertInIssueCommand ed a issue_date) w =
     (case update_advert_in_issue (editor_objs w ! ed) (heap w) a issue_date of
        (Inl e, self', h') \<Rightarrow>
          (Inl e, w\<lparr>heap := h', editor_objs := (editor_objs w)[ed := self']\<rparr>)
      | (Inr u, self', h') \<Rightarrow>
          (Inr (PyStr (''Advert '' @ advert_id (h' ! a) @ '' updated or added to issue ''
                       @ issue_date @ ''.'')),
           w\<lparr>heap := h', editor_objs := (editor_objs w)[ed := self']\<rparr>))"
| "execute (RemoveAdvertFromIssueCommand ed aid issue_date) w =
     (case remove_advert_from_issue (editor_objs w ! ed) (heap w) aid issue_date of
        (Inl e, self', h') \<Rightarrow>
          (Inl e, w\<lparr>heap := h', editor_objs := (editor_objs w)[ed := self']\<rparr>)
      | (Inr u, self', h') \<Rightarrow>
          (Inr (PyStr (''Advert '' @ aid @ '' removed from issue '' @ issue_date @ ''.'')),
           w\<lparr>heap := h', editor_objs := (editor_objs w)[ed := self']\<rparr>))"
| "execute (StoreAdvertCommand pc a) w =
     (case store_advert (processing_objs w ! pc) (heap w) a of
        (Inl e, self', h') \<Rightarrow>
          (Inl e, w\<lparr>heap := h', processing_objs := (processing_objs w)[pc := self']\<rparr>)
      | (Inr u, self', h') \<Rightarrow>
          (Inr (PyStr (''Advert '' @ advert_id (h' ! a) @ '' stored successfully.'')),
           w\<lparr>heap := h', processing_objs := (processing_objs w)[pc := self']\<rparr>))"

subsection \<open>\<^verbatim>\<open>CommandInvoker\<close>\<close>

record CommandInvoker =
  command_queue :: "command list"

definition CommandInvoker_init :: CommandInvoker where
  "CommandInvoker_init = \<lparr>command_queue = []\<rparr>"

definition add_command :: "CommandInvoker \<Rightarrow> command \<Rightarrow> CommandInvoker" where
  "add_command self c = self\<lparr>command_queue := command_queue self @ [c]\<rparr>"

definition clear_command_queue :: "CommandInvoker \<Rightarrow> CommandInvoker" where
  "clear_command_queue self = self\<lparr>command_queue := []\<rparr>"

text \<open>
  The \<^verbatim>\<open>while\<close> loop of \<^verbatim>\<open>execute_commands\<close>, on the queue, the local list \<^verbatim>\<open>results\<close>
  and the world. \<^verbatim>\<open>pop(0)\<close> takes the head off the queue before the command runs. An
  exception of \<^verbatim>\<open>command.execute()\<close> is not caught: it leaves the method, and with it the
  local \<^verbatim>\<open>results\<close> is gone.
\<close>

fun execute_loop ::
  "command list \<Rightarrow> py_value list \<Rightarrow> world \<Rightarrow> (error + py_value list) \<times> command list \<times> world" where
  "execute_loop [] results w = (Inr results, [], w)"
| "execute_loop (command # queue) results w =
     (case execute command w of
        (Inl e, w') \<Rightarrow> (Inl e, queue, w')
      | (Inr r, w') \<Rightarrow> execute_loop queue (results @ [r]) w')"

definition execute_commands ::
  "CommandInvoker \<Rightarrow> world \<Rightarrow> (error + py_value list) \<times> CommandInvoker \<times> world" where
  "execute_commands self w =
     (case execute_loop (command_queue self) [] w of
        (out, queue, w') \<Rightarrow> (out, self\<lparr>command_queue := queue\<rparr>, w'))"

subsection \<open>Observations and the example objects of the script\<close>

text \<open>The sequence an editor holds for an issue date; empty when the date is no key.\<close>

definition issue_entries :: "Editor \<Rightarrow> string \<Rightarrow> addr list" where
  "issue_entries self issue_date =
     (case magazine_issues self issue_date of None \<Rightarrow> [] | Some entries \<Rightarrow> entries)"

text \<open>The character of a decimal digit, for writing dates digit by digit.\<close>

definition dchar :: "nat \<Rightarrow> char" where
  "dchar k = char_of (48 + k)"

text \<open>
  The world a queue of commands leaves when every command has run, in the order of the
  queue, on the world the one before it left; and the outcome of the command at position
  \<open>i\<close> when the commands before it have run so.
\<close>

definition state_after :: "command list \<Rightarrow> world \<Rightarrow> world" where
  "state_after cs w = foldl (\<lambda>w c. snd (execute c w)) w cs"

definition result_at :: "command list \<Rightarrow> world \<Rightarrow> nat \<Rightarrow> error + py_value" where
  "result_at cs w i = fst (execute (cs ! i) (state_after (take i cs) w))"

text \<open>
  The objects the script at the end of \<^verbatim>\<open>it_magazine.py\<close> builds: the three staff
  objects and the advert \<^verbatim>\<open>AD001\<close>, here with the status given.
\<close>

definition example_advert :: "string \<Rightarrow> Advert" where
  "example_advert st = Advert_init ''AD001'' ''Client A'' ''Full Page'' ''Back Cover'' ''2025-01-15'' st"

definition example_editor :: Editor where
  "example_editor =
     \<lparr>staff_id = PyInt 200000, salary = 20000, dept = ''Editing'', magazine_issues = Map.empty\<rparr>"

definition example_marketing :: MarketingDeptStaff where
  "example_marketing =
     \<lparr>staff_id = PyInt 100000, salary = 50000, dept = ''Marketing'', adverts = Map.empty\<rparr>"

definition example_processing :: ProcessingCentreStaff where
  "example_processing =
     \<lparr>staff_id = PyInt 300000, salary = 20000, dept = ''Processing Centre'', stored_adverts = []\<rparr>"

text \<open>
  The world before the script's first batch (create, then update), and its queue; the
  world after its third batch, where the advert, updated by the first batch, is approved
  and stored and the issue is empty again, and the queue of its last batch (cancel, then
  place in the issue).
\<close>

definition script_advert :: "string \<Rightarrow> Advert" where
  "script_advert st =
     Advert_init ''AD001'' ''Client A'' ''Half Page'' ''Front Cover'' ''2025-01-15'' st"

definition script_world_start :: world where
  "script_world_start =
     \<lparr>heap = [], marketing_objs = [example_marketing], editor_objs = [example_editor],
      processing_objs = [example_processing]\<rparr>"

definition script_world_stored :: world where
  "script_world_stored =
     \<lparr>heap = [script_advert ''Approved''],
      marketing_objs = [example_marketing\<lparr>adverts := [''AD001'' \<mapsto> 0]\<rparr>],
      editor_objs = [example_editor\<lparr>magazine_issues := [''2025-03-01'' \<mapsto> []]\<rparr>],
      processing_objs = [example_processing\<lparr>stored_adverts := [0]\<rparr>]\<rparr>"

definition script_queue_create_update :: "command list" where
  "script_queue_create_update =
     [CreateAdvertCommand 0 ''AD001'' ''Client A'' ''Full Page'' ''Back Cover'' ''2025-01-15'',
      UpdateAdvertCommand 0 ''AD001'' (Some ''Half Page'') (Some ''Front Cover'') None]"

definition script_queue_cancel_place :: "command list" where
  "script_queue_cancel_place =
     [CancelAdvertCommand 0 ''AD001'', UpdateAdvertInIssueCommand 0 0 ''2025-03-01'']"

section \<open>Properties\<close>

subsection \<open>Auxiliary facts\<close>

lemma advert_id_status_update:
  "advert_id (h[a := (h ! a)\<lparr>status := s\<rparr>] ! x) = advert_id (h ! x)"
  by (cases "x = a"; cases "a < length h"; simp add: list_update_beyond)

lemma find_None_all: "find P xs = None \<longleftrightarrow> (\<forall>x\<in>set xs. \<not> P x)"
  by (induction xs) auto

lemma append_path:
  assumes nc: "status (h ! a) \<noteq> ''Cancelled''"
    and nf: "find (\<lambda>ad. advert_id (h ! ad) = advert_id (h ! a)) (issue_entries self d) = None"
  shows "update_advert_in_issue self h a d =
           (Inr (), self\<lparr>magazine_issues := (magazine_issues self)(d \<mapsto> issue_entries self d @ [a])\<rparr>,
            h[a := (h ! a)\<lparr>status := ''Approved''\<rparr>])"
  using nc nf
  by (cases "magazine_issues self d") (simp_all add: update_advert_in_issue_def issue_entries_def Let_def)

lemma merge_path:
  assumes nc: "status (h ! a) \<noteq> ''Cancelled''"
    and f: "find (\<lambda>ad. advert_id (h ! ad) = advert_id (h ! a)) (issue_entries self d) = Some e"
  shows "update_advert_in_issue self h a d =
           (Inr (), self,
            h[e := update_details (h ! e) (Some (size' (h ! a))) (Some (placement (h ! a)))
                     (Some (publication_date (h ! a)))])"
proof (cases "magazine_issues self d")
  case None
  with f show ?thesis by (simp add: issue_entries_def)
next
  case (Some es)
  with nc f show ?thesis
    by (simp add: update_advert_in_issue_def issue_entries_def Let_def)
qed

lemma update_details_frame:
  "advert_id (update_details ad sz pl pd) = advert_id ad"
  "client_name (update_details ad sz pl pd) = client_name ad"
  "status (update_details ad sz pl pd) = status ad"
  by (simp_all add: update_details_def Let_def)

lemma update_details_fields:
  "size' (update_details ad sz pl pd) = (if truthy sz then the sz else size' ad)"
  "placement (update_details ad sz pl pd) = (if truthy pl then the pl else placement ad)"
  "publication_date (update_details ad sz pl pd) =
     (if truthy pd then the pd else publication_date ad)"
  by (simp_all add: update_details_def Let_def)

lemma guard_rejects_only_cancelled:
  "isl (fst (update_advert_in_issue self h a d)) \<longleftrightarrow> status (h ! a) = ''Cancelled''"
  by (simp add: update_advert_in_issue_def Let_def split: option.splits)

lemma state_after_Nil: "state_after [] w = w"
  by (simp add: state_after_def)

lemma state_after_Cons: "state_after (c # cs) w = state_after cs (snd (execute c w))"
  by (simp add: state_after_def)

lemma result_at_0: "result_at (c # cs) w 0 = fst (execute c w)"
  by (simp add: result_at_def state_after_def)

lemma result_at_Suc: "result_at (c # cs) w (Suc i) = result_at cs (snd (execute c w)) i"
  by (simp add: result_at_def state_after_def)

lemma execute_loop_all_succeed:
  "\<forall>i<length q. \<not> isl (result_at q w i) \<Longrightarrow>
   execute_loop q acc w =
     (Inr (acc @ map (\<lambda>i. projr (result_at q w i)) [0..<length q]), [], state_after q w)"
proof (induction q arbitrary: acc w)
  case Nil
  show ?case by (simp add: state_after_Nil)
next
  case (Cons c cs)
  from Cons.prems have "\<not> isl (result_at (c # cs) w 0)" by simp
  then have ok: "\<not> isl (fst (execute c w))" by (simp add: result_at_0)
  then obtain r w' where ex: "execute c w = (Inr r, w')"
    by (cases "execute c w"; cases "fst (execute c w)") auto
  have rest: "\<forall>i<length cs. \<not> isl (result_at cs w' i)"
  proof (intro allI impI)
    fix i assume "i < length cs"
    with Cons.prems have "\<not> isl (result_at (c # cs) w (Suc i))" by simp
    then show "\<not> isl (result_at cs w' i)" by (simp add: result_at_Suc ex)
  qed
  have idx: "map (\<lambda>i. projr (result_at (c # cs) w i)) [0..<length (c # cs)] =
             r # map (\<lambda>i. projr (result_at cs w' i)) [0..<length cs]"
    by (simp add: upt_conv_Cons map_Suc_upt [symmetric] result_at_0 result_at_Suc ex
             del: upt_Suc)
  show ?case
    by (simp only: execute_loop.simps ex prod.case sum.case Cons.IH [OF rest] idx
          state_after_Cons snd_conv append_assoc append_Cons append_Nil)
qed

lemma execute_loop_stops:
  "k < length q \<Longrightarrow> \<forall>i<k. \<not> isl (result_at q w i) \<Longrightarrow> result_at q w k = Inl e \<Longrightarrow>
   execute_loop q acc w = (Inl e, drop (Suc k) q, state_after (take (Suc k) q) w)"
proof (induction q arbitrary: k acc w)
  case Nil
  then show ?case by simp
next
  case (Cons c cs)
  show ?case
  proof (cases k)
    case 0
    with Cons.prems have "fst (execute c w) = Inl e" by (simp add: result_at_0)
    then obtain w' where ex: "execute c w = (Inl e, w')"
      by (cases "execute c w") auto
    with 0 show ?thesis by (simp add: state_after_Cons state_after_Nil)
  next
    case (Suc j)
    with Cons.prems have "\<not> isl (result_at (c # cs) w 0)" by simp
    then have ok: "\<not> isl (fst (execute c w))" by (simp add: result_at_0)
    then obtain r w' where ex: "execute c w = (Inr r, w')"
      by (cases "execute c w"; cases "fst (execute c w)") auto
    have j: "j < length cs" using Cons.prems Suc by simp
    have before: "\<forall>i<j. \<not> isl (result_at cs w' i)"
    proof (intro allI impI)
      fix i assume "i < j"
      with Cons.prems Suc have "\<not> isl (result_at (c # cs) w (Suc i))" by simp
      then show "\<not> isl (result_at cs w' i)" by (simp add: result_at_Suc ex)
    qed
    have at: "result_at cs w' j = Inl e"
      using Cons.prems Suc by (simp add: result_at_Suc ex)
    show ?thesis
      by (simp add: Suc ex Cons.IH [OF j before at] state_after_Cons)
  qed
qed

lemma execute_failure_keeps_world:
  "execute c w = (Inl e, w') \<Longrightarrow> w' = w"
  by (cases c)
     (auto simp: create_advert_def update_advert_def cancel_advert_def
        update_advert_in_issue_def remove_advert_from_issue_def store_advert_def Let_def
        split: if_splits option.splits)

lemma state_after_snoc: "state_after (cs @ [c]) w = snd (execute c (state_after cs w))"
  by (simp add: state_after_def)

lemma failing_command_keeps_state:
  assumes k: "k < length q" and f: "result_at q w k = Inl e"
  shows "state_after (take (Suc k) q) w = state_after (take k q) w"
proof -
  let ?w = "state_after (take k q) w"
  from f have "fst (execute (q ! k) ?w) = Inl e" by (simp add: result_at_def)
  then have "execute (q ! k) ?w = (Inl e, snd (execute (q ! k) ?w))"
    by (cases "execute (q ! k) ?w") simp
  then have "snd (execute (q ! k) ?w) = ?w" by (rule execute_failure_keeps_world)
  with k show ?thesis by (simp add: take_Suc_conv_app_nth state_after_snoc)
qed

lemma cancel_place_outcomes:
  "result_at (script_queue_cancel_place @ cs) script_world_stored 0 =
     Inr (PyStr ''Advert AD001 cancelled successfully.'')"
  "result_at (script_queue_cancel_place @ cs) script_world_stored 1 =
     Inl (ValueError ''Cannot add or update a cancelled advert in the magazine.'')"
  "state_after (take 1 (script_queue_cancel_place @ cs)) script_world_stored =
     script_world_stored\<lparr>heap := [script_advert ''Cancelled'']\<rparr>"
  by (simp_all add: result_at_def state_after_def script_queue_cancel_place_def
        script_world_stored_def cancel_advert_def Advert_cancel_advert_def
        update_advert_in_issue_def example_marketing_def script_advert_def Advert_init_def)

text \<open>
  Dates: the example dates of the script and the tests, and a string \<^verbatim>\<open>strptime\<close>
  accepts although month and day are written without the leading zero.
\<close>

lemmas date_defs = is_valid_date_def strptime_Ymd_def re_Ymd_def re_m_def re_d_def
  is_digit_def digit_val_def in_range_def days_in_month_def is_leap_def

lemma valid_date_example: "is_valid_date ''2025-01-15''"
  by (simp add: date_defs)

lemma invalid_date_example: "\<not> is_valid_date ''InvalidDate''"
  by (simp add: date_defs)

lemma strptime_accepts_unpadded: "strptime_Ymd ''2025-1-5'' = Some (2025, 1, 5)"
  by (simp add: date_defs)

text \<open>
  On a string of the form YYYY-MM-DD, four, two and two digits, \<^verbatim>\<open>strptime\<close> succeeds
  exactly for the dates of the calendar from year 1 on.
\<close>

lemma of_char_dchar: "k < 10 \<Longrightarrow> (of_char (dchar k) :: nat) = 48 + k"
  by (simp add: dchar_def)

lemma dchar_eq_iff: "k < 10 \<Longrightarrow> dchar k = c \<longleftrightarrow> 48 + k = (of_char c :: nat)"
  using of_char_dchar [of k] by (metis of_char_eq_iff)

lemma dchar_digit: "k < 10 \<Longrightarrow> is_digit (dchar k)" "k < 10 \<Longrightarrow> digit_val (dchar k) = k"
  by (simp_all add: is_digit_def digit_val_def of_char_dchar)

lemma dchar_in_range: "k < 10 \<Longrightarrow> in_range (dchar k) lo hi \<longleftrightarrow> lo \<le> k \<and> k \<le> hi"
  by (simp add: in_range_def dchar_digit)

lemma padded_example:
  "[dchar 2, dchar 0, dchar 2, dchar 5, CHR ''-'', dchar 0, dchar 1, CHR ''-'', dchar 1, dchar 5]
     = ''2025-01-15''"
  by (simp add: dchar_eq_iff)

lemma re_Y_digits:
  "a < 10 \<Longrightarrow> b < 10 \<Longrightarrow> c < 10 \<Longrightarrow> d < 10 \<Longrightarrow>
   re_Y (dchar a # dchar b # dchar c # dchar d # r) = [(1000 * a + 100 * b + 10 * c + d, r)]"
  by (simp add: dchar_digit)

lemma re_m_digits:
  assumes "a < 10" "b < 10"
  shows "concat (map (\<lambda>(m, r3). map (Pair m) (re_lit CHR ''-'' r3))
           (re_m (dchar a # dchar b # CHR ''-'' # r))) =
         (if 1 \<le> 10 * a + b \<and> 10 * a + b \<le> 12 then [(10 * a + b, r)] else [])"
  using assms
  by (auto simp: re_m_def dchar_digit dchar_in_range dchar_eq_iff)

lemma re_d_digits:
  assumes "a < 10" "b < 10"
  shows "(case re_d [dchar a, dchar b] of [] \<Rightarrow> None
          | (d, rest) # _ \<Rightarrow> if rest \<noteq> [] then None else Some d) =
         (if 1 \<le> 10 * a + b \<and> 10 * a + b \<le> 31 then Some (10 * a + b) else None)"
  using assms
  by (auto simp: re_d_def dchar_digit dchar_in_range dchar_eq_iff)

lemma re_m_tail:
  assumes "a < 10" "b < 10"
  shows "re_m (dchar a # dchar b # r) =
     (if a = 1 \<and> b \<le> 2 then [(10 + b, r)] else [])
     @ (if a = 0 \<and> 1 \<le> b then [(b, r)] else [])
     @ (if 1 \<le> a then [(a, dchar b # r)] else [])"
  using assms
  by (auto simp: re_m_def dchar_digit dchar_in_range dchar_eq_iff)

lemma re_lit_dchar: "b < 10 \<Longrightarrow> re_lit CHR ''-'' (dchar b # r) = []"
  by (simp add: dchar_eq_iff)

lemma strptime_digits:
  assumes "a < 10" "b < 10" "c < 10" "e < 10" "m1 < 10" "m2 < 10" "d1 < 10" "d2 < 10"
  shows "strptime_Ymd [dchar a, dchar b, dchar c, dchar e, CHR ''-'', dchar m1, dchar m2,
                       CHR ''-'', dchar d1, dchar d2] =
     (let y = 1000 * a + 100 * b + 10 * c + e; m = 10 * m1 + m2; d = 10 * d1 + d2
      in if 1 \<le> y \<and> 1 \<le> m \<and> m \<le> 12 \<and> 1 \<le> d \<and> d \<le> days_in_month y m
         then Some (y, m, d) else None)"
proof -
  let ?y = "1000 * a + 100 * b + 10 * c + e"
  have dm: "days_in_month ?y (10 * m1 + m2) \<le> 31"
    by (simp add: days_in_month_def)
  have m: "concat (map (\<lambda>(m, r3). concat (map (\<lambda>r4. map (\<lambda>(d, r5). (?y, m, d, r5)) (re_d r4))
                (re_lit CHR ''-'' r3)))
              (re_m [dchar m1, dchar m2, CHR ''-'', dchar d1, dchar d2])) =
           (if 1 \<le> 10 * m1 + m2 \<and> 10 * m1 + m2 \<le> 12
            then map (\<lambda>(d, r5). (?y, 10 * m1 + m2, d, r5)) (re_d [dchar d1, dchar d2]) else [])"
    using assms by (auto simp: re_m_tail dchar_eq_iff)
  have d: "(case map (\<lambda>(d, r5). (?y, 10 * m1 + m2, d, r5)) (re_d [dchar d1, dchar d2]) of
              [] \<Rightarrow> None
            | (y, m, d, rest) # _ \<Rightarrow>
                if rest \<noteq> [] then None
                else if 1 \<le> y \<and> 1 \<le> m \<and> m \<le> 12 \<and> 1 \<le> d \<and> d \<le> days_in_month y m
                then Some (y, m, d) else None) =
           (if 1 \<le> ?y \<and> 1 \<le> 10 * m1 + m2 \<and> 10 * m1 + m2 \<le> 12 \<and> 1 \<le> 10 * d1 + d2
                \<and> 10 * d1 + d2 \<le> days_in_month ?y (10 * m1 + m2)
            then Some (?y, 10 * m1 + m2, 10 * d1 + d2) else None)"
    using assms dm
    by (auto simp: re_d_def dchar_digit dchar_in_range dchar_eq_iff)
  show ?thesis
    using assms
    by (simp add: strptime_Ymd_def re_Ymd_def re_Y_digits m Let_def del: re_Y.simps)
       (simp add: d)
qed

lemma is_valid_date_padded:
  assumes "a < 10" "b < 10" "c < 10" "e < 10" "m1 < 10" "m2 < 10" "d1 < 10" "d2 < 10"
  shows "is_valid_date [dchar a, dchar b, dchar c, dchar e, CHR ''-'', dchar m1, dchar m2,
                        CHR ''-'', dchar d1, dchar d2] \<longleftrightarrow>
           1 \<le> 1000 * a + 100 * b + 10 * c + e
           \<and> 1 \<le> 10 * m1 + m2 \<and> 10 * m1 + m2 \<le> 12
           \<and> 1 \<le> 10 * d1 + d2
           \<and> 10 * d1 + d2 \<le> days_in_month (1000 * a + 100 * b + 10 * c + e) (10 * m1 + m2)"
  unfolding is_valid_date_def
  by (simp only: strptime_digits [OF assms] Let_def) (simp split: if_splits)

text \<open>
  The length of \<^verbatim>\<open>str(i)\<close>: six characters are the six-digit numbers and the negative
  numbers of five digits, whose sign is the sixth character.
\<close>

lemma length_digits_of:
  "length (digits_of n) = (if n < 10 then 1 else Suc (length (digits_of (n div 10))))"
  by (subst digits_of.simps) simp

lemma length_digits_of_pos: "0 < length (digits_of n)"
  by (subst length_digits_of) simp

lemma length_digits_of_le: "0 < k \<Longrightarrow> length (digits_of n) \<le> k \<longleftrightarrow> n < 10 ^ k"
proof (induction k arbitrary: n)
  case 0
  then show ?case by simp
next
  case (Suc k)
  show ?case
  proof (cases "n < 10")
    case True
    have "(10::nat) \<le> 10 ^ Suc k" by simp
    with True have "n < 10 ^ Suc k" by linarith
    with True show ?thesis by (subst length_digits_of) simp
  next
    case False
    show ?thesis
    proof (cases "k = 0")
      case True
      with False length_digits_of_pos [of "n div 10"] show ?thesis
        by (subst length_digits_of) simp
    next
      case k: False
      then have "length (digits_of (n div 10)) \<le> k \<longleftrightarrow> n div 10 < 10 ^ k"
        using Suc.IH [of "n div 10"] by simp
      also have "\<dots> \<longleftrightarrow> n < 10 ^ Suc k"
        by (simp add: div_less_iff_less_mult mult.commute)
      finally show ?thesis using False by (subst length_digits_of) simp
    qed
  qed
qed

lemma length_digits_of_6: "length (digits_of n) = 6 \<longleftrightarrow> 100000 \<le> n \<and> n \<le> 999999"
proof -
  have "length (digits_of n) = 6 \<longleftrightarrow> length (digits_of n) \<le> 6 \<and> \<not> length (digits_of n) \<le> 5"
    by arith
  also have "\<dots> \<longleftrightarrow> n < 10 ^ 6 \<and> \<not> n < 10 ^ 5"
    by (simp add: length_digits_of_le)
  also have "\<dots> \<longleftrightarrow> 100000 \<le> n \<and> n \<le> 999999"
    by auto
  finally show ?thesis .
qed

lemma length_str_int_6:
  "length (str_int i) = 6 \<longleftrightarrow> (100000 \<le> i \<and> i \<le> 999999) \<or> (- 99999 \<le> i \<and> i \<le> - 10000)"
proof (cases "i < 0")
  case True
  have "length (digits_of (nat (- i))) = 5 \<longleftrightarrow>
        length (digits_of (nat (- i))) \<le> 5 \<and> \<not> length (digits_of (nat (- i))) \<le> 4"
    by arith
  also have "\<dots> \<longleftrightarrow> nat (- i) < 10 ^ 5 \<and> \<not> nat (- i) < 10 ^ 4"
    by (simp add: length_digits_of_le)
  also have "\<dots> \<longleftrightarrow> - 99999 \<le> i \<and> i \<le> - 10000"
    using True by auto
  finally show ?thesis using True by (simp add: str_int_def)
next
  case False
  then show ?thesis
    by (auto simp: str_int_def length_digits_of_6)
qed

text \<open>What \<^verbatim>\<open>ITMagazineStaff.__init__\<close> does, case by case.\<close>

lemma staff_init_outcome:
  "(isl (fst (ITMagazineStaff_init used sid sal d)) \<longleftrightarrow>
      \<not> (isinstance_int sid \<and> length (py_str sid) = 6 \<and> 10000 \<le> sal \<and> sal \<le> 1000000
         \<and> d \<in> {''Marketing'', ''Editing'', ''Processing Centre''} \<and> sid \<notin> used))
   \<and> (isl (fst (ITMagazineStaff_init used sid sal d)) \<longrightarrow>
        snd (ITMagazineStaff_init used sid sal d) = used)
   \<and> (\<not> isl (fst (ITMagazineStaff_init used sid sal d)) \<longrightarrow>
        ITMagazineStaff_init used sid sal d =
          (Inr \<lparr>staff_id = sid, salary = sal, dept = d\<rparr>, insert sid used))"
  by (auto simp: ITMagazineStaff_init_def valid_departments_def)

subsection \<open>Staff construction\<close>

text \<open>
  Claim C6. Constructing a staff record succeeds exactly when the id is a 6-digit number,
  the salary lies between 10,000 and 1,000,000, the department is one of the three valid
  ones and the id is not registered yet. The code tests the id by the length of
  \<^verbatim>\<open>str(staff_id)\<close>, which counts the minus sign: the id \<open>-12345\<close> has five digits, yet
  the constructor of \<^verbatim>\<open>ITMagazineStaff\<close> and that of \<^verbatim>\<open>MarketingDeptStaff\<close> accept it
  and register it.
\<close>

theorem staff_id_negative_five_digits_registered:
  "ITMagazineStaff_init {} (PyInt (- 12345)) 50000 ''Marketing'' =
     (Inr \<lparr>staff_id = PyInt (- 12345), salary = 50000, dept = ''Marketing''\<rparr>,
      {PyInt (- 12345)})
   \<and> MarketingDeptStaff_init {} (PyInt (- 12345)) 50000 ''Marketing'' =
     (Inr \<lparr>staff_id = PyInt (- 12345), salary = 50000, dept = ''Marketing'',
           adverts = Map.empty\<rparr>,
      {PyInt (- 12345)})"
  by (simp add: MarketingDeptStaff_init_def ITMagazineStaff_init_def length_str_int_6
        valid_departments_def)

text \<open>So the call does not fail, and the five-digit id is in the registry afterwards.\<close>

theorem staff_id_negative_five_digits_registered_witness:
  "\<not> isl (fst (ITMagazineStaff_init {} (PyInt (- 12345)) 50000 ''Marketing''))
   \<and> PyInt (- 12345) \<in> snd (ITMagazineStaff_init {} (PyInt (- 12345)) 50000 ''Marketing'')
   \<and> \<not> (100000 \<le> (- 12345 :: int) \<and> (- 12345 :: int) \<le> 999999)"
  using staff_id_negative_five_digits_registered by simp

subsection \<open>The marketing department\<close>

text \<open>
  What \<^verbatim>\<open>create_advert\<close> does, case by case, with the date check as the code makes it:
  the six checks are its only exits, a failing call leaves the mapping and the heap as
  they were, and a successful one creates an advert with status \<^verbatim>\<open>Pending\<close>, enters it
  under its id and returns it. Creating \<^verbatim>\<open>AD001\<close> for Client A, Full Page, Back Cover,
  2025-01-15 in a fresh store succeeds with status \<^verbatim>\<open>Pending\<close>.
\<close>

lemma create_advert_outcome:
  "(isl (fst (create_advert self h aid cn sz pl pd)) \<longleftrightarrow>
      aid = [] \<or> cn = [] \<or> sz \<notin> {''Full Page'', ''Half Page'', ''Quarter Page''} \<or> pl = []
      \<or> \<not> is_valid_date pd \<or> aid \<in> dom (adverts self))
   \<and> (isl (fst (create_advert self h aid cn sz pl pd)) \<longrightarrow>
        snd (create_advert self h aid cn sz pl pd) = (self, h))
   \<and> (\<not> isl (fst (create_advert self h aid cn sz pl pd)) \<longrightarrow>
        create_advert self h aid cn sz pl pd =
          (Inr (length h), self\<lparr>adverts := (adverts self)(aid \<mapsto> length h)\<rparr>,
           h @ [\<lparr>advert_id = aid, client_name = cn, size' = sz, placement = pl,
                 publication_date = pd, status = ''Pending''\<rparr>]))
   \<and> create_advert example_marketing [] ''AD001'' ''Client A'' ''Full Page'' ''Back Cover''
         ''2025-01-15'' =
       (Inr 0, example_marketing\<lparr>adverts := [''AD001'' \<mapsto> 0]\<rparr>, [example_advert ''Pending''])"
proof -
  have ex: "create_advert example_marketing [] ''AD001'' ''Client A'' ''Full Page'' ''Back Cover''
         ''2025-01-15'' =
       (Inr 0, example_marketing\<lparr>adverts := [''AD001'' \<mapsto> 0]\<rparr>, [example_advert ''Pending''])"
    by (simp add: create_advert_def valid_sizes_def valid_date_example example_marketing_def
          example_advert_def)
  show ?thesis
    by (simp only: ex) (auto simp: create_advert_def valid_sizes_def Advert_init_def)
qed

text \<open>
  Claim C7. \<^verbatim>\<open>create_advert\<close> fails if and only if the advert id is empty, the client
  name is empty, the size is none of Full Page, Half Page and Quarter Page, the placement
  is empty, the publication date is not a valid YYYY-MM-DD calendar date, or the id is a
  key of the store's mapping already. The code leaves the date to \<^verbatim>\<open>strptime\<close>, which
  also takes a month and a day of one digit and a day written with a space: the dates
  \<^verbatim>\<open>2025-1-5\<close> and \<^verbatim>\<open>2025-01- 5\<close> are not of the form YYYY-MM-DD, which the code's own
  message demands, yet the call succeeds and stores the advert with the date as given.
\<close>

theorem create_advert_accepts_unpadded_date:
  "create_advert example_marketing [] ''AD001'' ''Client A'' ''Full Page'' ''Back Cover''
       ''2025-1-5'' =
     (Inr 0, example_marketing\<lparr>adverts := [''AD001'' \<mapsto> 0]\<rparr>,
      [Advert_init ''AD001'' ''Client A'' ''Full Page'' ''Back Cover'' ''2025-1-5'' ''Pending''])
   \<and> create_advert example_marketing [] ''AD001'' ''Client A'' ''Full Page'' ''Back Cover''
       ''2025-01- 5'' =
     (Inr 0, example_marketing\<lparr>adverts := [''AD001'' \<mapsto> 0]\<rparr>,
      [Advert_init ''AD001'' ''Client A'' ''Full Page'' ''Back Cover'' ''2025-01- 5'' ''Pending''])"
proof -
  have d1: "is_valid_date ''2025-1-5''" by (simp add: date_defs)
  have d2: "is_valid_date ''2025-01- 5''" by (simp add: date_defs)
  show ?thesis
    by (simp add: create_advert_def valid_sizes_def d1 d2 example_marketing_def)
qed

theorem create_advert_accepts_unpadded_date_witness:
  "\<not> isl (fst (create_advert example_marketing [] ''AD001'' ''Client A'' ''Full Page''
       ''Back Cover'' ''2025-1-5''))
   \<and> publication_date (snd (snd (create_advert example_marketing [] ''AD001'' ''Client A''
       ''Full Page'' ''Back Cover'' ''2025-1-5'')) ! 0) = ''2025-1-5''
   \<and> length ''2025-1-5'' \<noteq> length ''YYYY-MM-DD''
   \<and> \<not> isl (fst (create_advert example_marketing [] ''AD001'' ''Client A'' ''Full Page''
       ''Back Cover'' ''2025-01- 5''))"
  using create_advert_accepts_unpadded_date by (simp add: Advert_init_def)

text \<open>
  Claim C8, as the code has it. For an id in the store, \<^verbatim>\<open>update_advert\<close> takes over each
  of the arguments size, placement and publication date that is given and not empty, and
  leaves the others as well as the advert's id, client name and status, and every other
  advert, as they were; an argument given as the empty string counts as omitted. For an id
  that is not in the store the call fails and changes nothing.
\<close>

theorem update_advert_frame:
  "(adverts self aid = None \<longrightarrow>
      update_advert self h aid sz pl pd =
        (Inl (ValueError ''Advert ID does not exist.''), self, h))
   \<and> (\<forall>a. adverts self aid = Some a \<and> a < length h \<longrightarrow>
        (\<exists>h'. update_advert self h aid sz pl pd =
                 (Inr (''Advert '' @ aid @ '' updated successfully.''), self, h')
           \<and> size' (h' ! a) =
               (case sz of Some s \<Rightarrow> if s \<noteq> [] then s else size' (h ! a)
                | None \<Rightarrow> size' (h ! a))
           \<and> placement (h' ! a) =
               (case pl of Some s \<Rightarrow> if s \<noteq> [] then s else placement (h ! a)
                | None \<Rightarrow> placement (h ! a))
           \<and> publication_date (h' ! a) =
               (case pd of Some s \<Rightarrow> if s \<noteq> [] then s else publication_date (h ! a)
                | None \<Rightarrow> publication_date (h ! a))
           \<and> advert_id (h' ! a) = advert_id (h ! a)
           \<and> client_name (h' ! a) = client_name (h ! a)
           \<and> status (h' ! a) = status (h ! a)
           \<and> length h' = length h
           \<and> (\<forall>x. x \<noteq> a \<longrightarrow> h' ! x = h ! x)))"
  by (simp add: update_advert_def update_details_frame update_details_fields
        split: option.splits)

theorem update_advert_frame_witness:
  "update_advert (example_marketing\<lparr>adverts := [''AD001'' \<mapsto> 0]\<rparr>)
       [example_advert ''Pending''] ''AD002'' None (Some ''Front Cover'') None =
     (Inl (ValueError ''Advert ID does not exist.''),
      example_marketing\<lparr>adverts := [''AD001'' \<mapsto> 0]\<rparr>, [example_advert ''Pending''])
   \<and> (\<exists>h'. update_advert (example_marketing\<lparr>adverts := [''AD001'' \<mapsto> 0]\<rparr>)
              [example_advert ''Pending''] ''AD001'' None (Some ''Front Cover'') None =
            (Inr ''Advert AD001 updated successfully.'',
             example_marketing\<lparr>adverts := [''AD001'' \<mapsto> 0]\<rparr>, h')
         \<and> placement (h' ! 0) = ''Front Cover''
         \<and> size' (h' ! 0) = ''Full Page''
         \<and> publication_date (h' ! 0) = ''2025-01-15''
         \<and> advert_id (h' ! 0) = ''AD001''
         \<and> client_name (h' ! 0) = ''Client A''
         \<and> status (h' ! 0) = ''Pending'')"
proof -
  let ?m = "example_marketing\<lparr>adverts := [''AD001'' \<mapsto> 0]\<rparr>"
  let ?h = "[example_advert ''Pending'']"
  note t1 = update_advert_frame [of ?m "''AD002''" ?h None "Some ''Front Cover''" None,
      THEN conjunct1]
  note t2 = update_advert_frame [of ?m "''AD001''" ?h None "Some ''Front Cover''" None,
      THEN conjunct2, rule_format, of 0]
  from t1 have r1: "update_advert ?m ?h ''AD002'' None (Some ''Front Cover'') None =
      (Inl (ValueError ''Advert ID does not exist.''), ?m, ?h)"
    by simp
  have "adverts ?m ''AD001'' = Some 0 \<and> 0 < length ?h" by simp
  from t2 [OF this] obtain h' where
    "update_advert ?m ?h ''AD001'' None (Some ''Front Cover'') None =
       (Inr ''Advert AD001 updated successfully.'', ?m, h')"
    "placement (h' ! 0) = ''Front Cover''" "size' (h' ! 0) = ''Full Page''"
    "publication_date (h' ! 0) = ''2025-01-15''" "advert_id (h' ! 0) = ''AD001''"
    "client_name (h' ! 0) = ''Client A''" "status (h' ! 0) = ''Pending''"
    by (auto simp: example_advert_def Advert_init_def)
  with r1 show ?thesis by blast
qed

text \<open>
  The claim as the specification words it (every argument supplied is applied) fails for
  an argument supplied as the empty string: the size of \<^verbatim>\<open>AD001\<close> stays Full Page.
\<close>

theorem update_advert_empty_argument_counterexample:
  "size' (snd (snd (update_advert (example_marketing\<lparr>adverts := [''AD001'' \<mapsto> 0]\<rparr>)
       [example_advert ''Pending''] ''AD001'' (Some []) None None)) ! 0) = ''Full Page''
   \<and> size' (snd (snd (update_advert (example_marketing\<lparr>adverts := [''AD001'' \<mapsto> 0]\<rparr>)
       [example_advert ''Pending''] ''AD001'' (Some []) None None)) ! 0) \<noteq> []"
  by (simp add: update_advert_def update_details_def example_advert_def Advert_init_def)

text \<open>
  Claim C9. For an id in the store, \<^verbatim>\<open>cancel_advert\<close> sets the advert's status to
  \<^verbatim>\<open>Cancelled\<close> whatever it was, and cancelling again succeeds and leaves the state of
  the first cancellation; for an id that is not in the store the call fails.
\<close>

theorem cancel_advert_idempotent:
  "(adverts self aid = None \<longrightarrow>
      cancel_advert self h aid = (Inl (ValueError ''Advert ID does not exist.''), self, h))
   \<and> (\<forall>a. adverts self aid = Some a \<and> a < length h \<longrightarrow>
        (\<exists>h'. cancel_advert self h aid =
                 (Inr (''Advert '' @ aid @ '' cancelled successfully.''), self, h')
           \<and> h' = h[a := (h ! a)\<lparr>status := ''Cancelled''\<rparr>]
           \<and> status (h' ! a) = ''Cancelled''
           \<and> (\<forall>x. x \<noteq> a \<longrightarrow> h' ! x = h ! x)
           \<and> cancel_advert self h' aid =
                 (Inr (''Advert '' @ aid @ '' cancelled successfully.''), self, h')))"
  by (simp add: cancel_advert_def Advert_cancel_advert_def)

theorem cancel_advert_idempotent_witness:
  "cancel_advert (example_marketing\<lparr>adverts := [''AD001'' \<mapsto> 0]\<rparr>)
       [example_advert ''Approved''] ''AD002'' =
     (Inl (ValueError ''Advert ID does not exist.''),
      example_marketing\<lparr>adverts := [''AD001'' \<mapsto> 0]\<rparr>, [example_advert ''Approved''])
   \<and> cancel_advert (example_marketing\<lparr>adverts := [''AD001'' \<mapsto> 0]\<rparr>)
       [example_advert ''Approved''] ''AD001'' =
     (Inr ''Advert AD001 cancelled successfully.'',
      example_marketing\<lparr>adverts := [''AD001'' \<mapsto> 0]\<rparr>, [example_advert ''Cancelled''])
   \<and> cancel_advert (example_marketing\<lparr>adverts := [''AD001'' \<mapsto> 0]\<rparr>)
       [example_advert ''Cancelled''] ''AD001'' =
     (Inr ''Advert AD001 cancelled successfully.'',
      example_marketing\<lparr>adverts := [''AD001'' \<mapsto> 0]\<rparr>, [example_advert ''Cancelled''])"
proof -
  let ?m = "example_marketing\<lparr>adverts := [''AD001'' \<mapsto> 0]\<rparr>"
  let ?h = "[example_advert ''Approved'']"
  note t1 = cancel_advert_idempotent [of ?m "''AD002''" ?h, THEN conjunct1]
  note t2 = cancel_advert_idempotent [of ?m "''AD001''" ?h, THEN conjunct2, rule_format, of 0]
  from t1 have r1: "cancel_advert ?m ?h ''AD002'' =
      (Inl (ValueError ''Advert ID does not exist.''), ?m, ?h)"
    by simp
  from t2 have r2: "cancel_advert ?m ?h ''AD001'' =
        (Inr ''Advert AD001 cancelled successfully.'', ?m, [example_advert ''Cancelled''])
      \<and> cancel_advert ?m [example_advert ''Cancelled''] ''AD001'' =
        (Inr ''Advert AD001 cancelled successfully.'', ?m, [example_advert ''Cancelled''])"
    by (simp add: example_advert_def Advert_init_def)
  from r1 r2 show ?thesis by simp
qed

subsection \<open>The editor: placing an advert in an issue\<close>

text \<open>
  Claim C3. For every advert whose status is \<^verbatim>\<open>Cancelled\<close> and every issue date,
  \<^verbatim>\<open>update_advert_in_issue\<close> fails, with the \<^verbatim>\<open>ValueError\<close> the code raises for an invalid
  transition, and leaves the editor as it was: the mapping of issues has the same keys and
  the same sequences as before the call, and no advert has changed.
\<close>

theorem cancelled_advert_rejected:
  assumes "status (h ! a) = ''Cancelled''"
  shows "update_advert_in_issue self h a issue_date =
     (Inl (ValueError ''Cannot add or update a cancelled advert in the magazine.''), self, h)"
  using assms by (simp add: update_advert_in_issue_def)

theorem cancelled_advert_rejected_witness:
  "status ([example_advert ''Cancelled''] ! 0) = ''Cancelled'' \<and>
   update_advert_in_issue example_editor [example_advert ''Cancelled''] 0 ''2025-02-01'' =
     (Inl (ValueError ''Cannot add or update a cancelled advert in the magazine.''),
      example_editor, [example_advert ''Cancelled''])"
proof -
  have c: "status ([example_advert ''Cancelled''] ! 0) = ''Cancelled''"
    by (simp add: example_advert_def Advert_init_def)
  from c cancelled_advert_rejected [OF c, of example_editor "''2025-02-01''"]
  show ?thesis by simp
qed

text \<open>
  Claim C4, as the code has it. For every advert whose status is not \<^verbatim>\<open>Cancelled\<close> and
  every issue date: if no entry of the issue's sequence has the advert's id, the call
  appends the advert to the sequence and sets its status to \<^verbatim>\<open>Approved\<close>, and the
  sequence then holds exactly one entry with that id; if there is such an entry, the call
  writes each of the advert's size, placement and publication date that is not empty into
  the first such entry and leaves a field of the entry as it was where the advert's field
  is empty; it appends nothing, and the status of the existing entry and of the advert
  passed stay as they were.
\<close>

theorem place_or_merge_in_issue:
  assumes obj: "a < length h" and nc: "status (h ! a) \<noteq> ''Cancelled''"
  shows
    "((\<forall>ad \<in> set (issue_entries self d). advert_id (h ! ad) \<noteq> advert_id (h ! a)) \<longrightarrow>
        (\<exists>self' h'. update_advert_in_issue self h a d = (Inr (), self', h')
           \<and> self' = self\<lparr>magazine_issues := (magazine_issues self)(d \<mapsto> issue_entries self d @ [a])\<rparr>
           \<and> issue_entries self' d = issue_entries self d @ [a]
           \<and> (\<forall>d'. d' \<noteq> d \<longrightarrow> magazine_issues self' d' = magazine_issues self d')
           \<and> h' = h[a := (h ! a)\<lparr>status := ''Approved''\<rparr>]
           \<and> status (h' ! a) = ''Approved''
           \<and> length (filter (\<lambda>ad. advert_id (h' ! ad) = advert_id (h' ! a))
                       (issue_entries self' d)) = 1))
     \<and> (\<forall>e. e < length h \<and>
            find (\<lambda>ad. advert_id (h ! ad) = advert_id (h ! a)) (issue_entries self d) = Some e \<longrightarrow>
        (\<exists>h'. update_advert_in_issue self h a d = (Inr (), self, h')
           \<and> h' = h[e := update_details (h ! e) (Some (size' (h ! a)))
                       (Some (placement (h ! a))) (Some (publication_date (h ! a)))]
           \<and> (\<forall>x. x \<noteq> e \<longrightarrow> h' ! x = h ! x)
           \<and> size' (h' ! e) = (if size' (h ! a) \<noteq> [] then size' (h ! a) else size' (h ! e))
           \<and> placement (h' ! e) =
               (if placement (h ! a) \<noteq> [] then placement (h ! a) else placement (h ! e))
           \<and> publication_date (h' ! e) =
               (if publication_date (h ! a) \<noteq> [] then publication_date (h ! a)
                else publication_date (h ! e))
           \<and> advert_id (h' ! e) = advert_id (h ! e)
           \<and> client_name (h' ! e) = client_name (h ! e)
           \<and> status (h' ! e) = status (h ! e)
           \<and> status (h' ! a) = status (h ! a)))"
proof (intro conjI impI allI)
  assume fresh: "\<forall>ad \<in> set (issue_entries self d). advert_id (h ! ad) \<noteq> advert_id (h ! a)"
  let ?P = "\<lambda>ad. advert_id (h ! ad) = advert_id (h ! a)"
  let ?h' = "h[a := (h ! a)\<lparr>status := ''Approved''\<rparr>]"
  let ?self' = "self\<lparr>magazine_issues := (magazine_issues self)(d \<mapsto> issue_entries self d @ [a])\<rparr>"
  from fresh have nf: "find ?P (issue_entries self d) = None"
    by (simp add: find_None_all)
  have run: "update_advert_in_issue self h a d = (Inr (), ?self', ?h')"
    by (rule append_path [OF nc nf])
  have ent: "issue_entries ?self' d = issue_entries self d @ [a]"
    by (simp add: issue_entries_def)
  have other: "\<forall>d'. d' \<noteq> d \<longrightarrow> magazine_issues ?self' d' = magazine_issues self d'"
    by simp
  have st: "status (?h' ! a) = ''Approved''"
    using obj by simp
  have "filter (\<lambda>ad. advert_id (?h' ! ad) = advert_id (?h' ! a)) (issue_entries self d) = []"
    using fresh by (simp add: advert_id_status_update filter_empty_conv)
  then have once: "length (filter (\<lambda>ad. advert_id (?h' ! ad) = advert_id (?h' ! a))
                     (issue_entries ?self' d)) = 1"
    by (simp add: ent)
  from run ent other st once
  show "\<exists>self' h'. update_advert_in_issue self h a d = (Inr (), self', h')
           \<and> self' = self\<lparr>magazine_issues := (magazine_issues self)(d \<mapsto> issue_entries self d @ [a])\<rparr>
           \<and> issue_entries self' d = issue_entries self d @ [a]
           \<and> (\<forall>d'. d' \<noteq> d \<longrightarrow> magazine_issues self' d' = magazine_issues self d')
           \<and> h' = h[a := (h ! a)\<lparr>status := ''Approved''\<rparr>]
           \<and> status (h' ! a) = ''Approved''
           \<and> length (filter (\<lambda>ad. advert_id (h' ! ad) = advert_id (h' ! a))
                       (issue_entries self' d)) = 1"
    by blast
next
  fix e
  assume ex: "e < length h \<and>
     find (\<lambda>ad. advert_id (h ! ad) = advert_id (h ! a)) (issue_entries self d) = Some e"
  let ?u = "update_details (h ! e) (Some (size' (h ! a)))
              (Some (placement (h ! a))) (Some (publication_date (h ! a)))"
  let ?h' = "h[e := ?u]"
  from ex have run: "update_advert_in_issue self h a d = (Inr (), self, ?h')"
    by (simp add: merge_path [OF nc])
  have at_e: "?h' ! e = ?u"
    using ex by simp
  have frame: "\<forall>x. x \<noteq> e \<longrightarrow> ?h' ! x = h ! x"
    by simp
  have sa: "status (?h' ! a) = status (h ! a)"
    using ex by (cases "a = e") (simp_all add: update_details_frame)
  from run at_e frame sa
  show "\<exists>h'. update_advert_in_issue self h a d = (Inr (), self, h')
           \<and> h' = h[e := update_details (h ! e) (Some (size' (h ! a)))
                       (Some (placement (h ! a))) (Some (publication_date (h ! a)))]
           \<and> (\<forall>x. x \<noteq> e \<longrightarrow> h' ! x = h ! x)
           \<and> size' (h' ! e) = (if size' (h ! a) \<noteq> [] then size' (h ! a) else size' (h ! e))
           \<and> placement (h' ! e) =
               (if placement (h ! a) \<noteq> [] then placement (h ! a) else placement (h ! e))
           \<and> publication_date (h' ! e) =
               (if publication_date (h ! a) \<noteq> [] then publication_date (h ! a)
                else publication_date (h ! e))
           \<and> advert_id (h' ! e) = advert_id (h ! e)
           \<and> client_name (h' ! e) = client_name (h ! e)
           \<and> status (h' ! e) = status (h ! e)
           \<and> status (h' ! a) = status (h ! a)"
    by (simp add: update_details_frame update_details_fields)
qed

theorem place_or_merge_in_issue_witness:
  "0 < length [example_advert ''Pending'']
   \<and> status ([example_advert ''Pending''] ! 0) \<noteq> ''Cancelled''
   \<and> update_advert_in_issue example_editor [example_advert ''Pending''] 0 ''2025-03-01'' =
       (Inr (), example_editor\<lparr>magazine_issues := [''2025-03-01'' \<mapsto> [0]]\<rparr>,
        [example_advert ''Approved''])
   \<and> update_advert_in_issue (example_editor\<lparr>magazine_issues := [''2025-03-01'' \<mapsto> [0]]\<rparr>)
         [example_advert ''Approved'',
          Advert_init ''AD001'' ''Client B'' ''Half Page'' [] ''2025-02-01'' ''Pending'']
         1 ''2025-03-01'' =
       (Inr (), example_editor\<lparr>magazine_issues := [''2025-03-01'' \<mapsto> [0]]\<rparr>,
        [Advert_init ''AD001'' ''Client A'' ''Half Page'' ''Back Cover'' ''2025-02-01'' ''Approved'',
         Advert_init ''AD001'' ''Client B'' ''Half Page'' [] ''2025-02-01'' ''Pending''])"
proof -
  let ?h = "[example_advert ''Pending'']"
  let ?ed = "example_editor\<lparr>magazine_issues := [''2025-03-01'' \<mapsto> [0]]\<rparr>"
  let ?g = "[example_advert ''Approved'',
             Advert_init ''AD001'' ''Client B'' ''Half Page'' [] ''2025-02-01'' ''Pending'']"
  have a1: "0 < length ?h" by simp
  have a2: "status (?h ! 0) \<noteq> ''Cancelled''"
    by (simp add: example_advert_def Advert_init_def)
  have b1: "1 < length ?g" by simp
  have b2: "status (?g ! 1) \<noteq> ''Cancelled''"
    by (simp add: Advert_init_def)
  note t1 = place_or_merge_in_issue [OF a1 a2, of example_editor "''2025-03-01''"]
  note t2 = place_or_merge_in_issue [OF b1 b2, of ?ed "''2025-03-01''"]
  have r1: "update_advert_in_issue example_editor ?h 0 ''2025-03-01'' =
       (Inr (), example_editor\<lparr>magazine_issues := [''2025-03-01'' \<mapsto> [0]]\<rparr>,
        [example_advert ''Approved''])"
    using t1 [THEN conjunct1]
    by (auto simp: issue_entries_def example_editor_def example_advert_def Advert_init_def)
  have r2: "update_advert_in_issue ?ed ?g 1 ''2025-03-01'' =
       (Inr (), ?ed,
        [Advert_init ''AD001'' ''Client A'' ''Half Page'' ''Back Cover'' ''2025-02-01'' ''Approved'',
         Advert_init ''AD001'' ''Client B'' ''Half Page'' [] ''2025-02-01'' ''Pending''])"
    using t2 [THEN conjunct2, rule_format, of 0]
    by (auto simp: issue_entries_def example_editor_def example_advert_def Advert_init_def
          update_details_def)
  from a1 a2 r1 r2 show ?thesis by simp
qed

text \<open>
  The claim as the specification words it (the advert's size, placement and publication
  date are merged into the existing entry) fails for an advert whose placement is empty:
  the entry keeps its placement Back Cover.
\<close>

theorem merge_skips_empty_field_counterexample:
  "placement ([example_advert ''Approved'',
               Advert_init ''AD001'' ''Client B'' ''Half Page'' [] ''2025-02-01'' ''Pending''] ! 1) = []
   \<and> fst (update_advert_in_issue
          (example_editor\<lparr>magazine_issues := [''2025-03-01'' \<mapsto> [0]]\<rparr>)
          [example_advert ''Approved'',
           Advert_init ''AD001'' ''Client B'' ''Half Page'' [] ''2025-02-01'' ''Pending'']
          1 ''2025-03-01'') = Inr ()
   \<and> placement (snd (snd (update_advert_in_issue
          (example_editor\<lparr>magazine_issues := [''2025-03-01'' \<mapsto> [0]]\<rparr>)
          [example_advert ''Approved'',
           Advert_init ''AD001'' ''Client B'' ''Half Page'' [] ''2025-02-01'' ''Pending'']
          1 ''2025-03-01'')) ! 0) = ''Back Cover''
   \<and> placement (snd (snd (update_advert_in_issue
          (example_editor\<lparr>magazine_issues := [''2025-03-01'' \<mapsto> [0]]\<rparr>)
          [example_advert ''Approved'',
           Advert_init ''AD001'' ''Client B'' ''Half Page'' [] ''2025-02-01'' ''Pending'']
          1 ''2025-03-01'')) ! 0) \<noteq>
       placement ([example_advert ''Approved'',
               Advert_init ''AD001'' ''Client B'' ''Half Page'' [] ''2025-02-01'' ''Pending''] ! 1)"
  by (simp add: update_advert_in_issue_def update_details_def example_editor_def
        example_advert_def Advert_init_def)

text \<open>
  Claim C10. The constructor takes the status \<^verbatim>\<open>Published\<close> as it is given. For every
  advert with that status whose id no entry of the issue has, \<^verbatim>\<open>update_advert_in_issue\<close>
  succeeds, appends the advert to the issue and sets its status to \<^verbatim>\<open>Approved\<close>: the
  guard rejects the status \<^verbatim>\<open>Cancelled\<close> and no other.
\<close>

theorem published_advert_placed:
  assumes obj: "a < length h" and pub: "status (h ! a) = ''Published''"
    and fresh: "\<forall>ad \<in> set (issue_entries self d). advert_id (h ! ad) \<noteq> advert_id (h ! a)"
  shows "status (Advert_init aid cn sz pl pd ''Published'') = ''Published''
     \<and> update_advert_in_issue self h a d =
         (Inr (),
          self\<lparr>magazine_issues := (magazine_issues self)(d \<mapsto> issue_entries self d @ [a])\<rparr>,
          h[a := (h ! a)\<lparr>status := ''Approved''\<rparr>])
     \<and> status (h[a := (h ! a)\<lparr>status := ''Approved''\<rparr>] ! a) = ''Approved''
     \<and> (\<forall>self2 h2 a2 d2. isl (fst (update_advert_in_issue self2 h2 a2 d2))
            \<longleftrightarrow> status (h2 ! a2) = ''Cancelled'')"
proof -
  from pub have nc: "status (h ! a) \<noteq> ''Cancelled''" by simp
  from fresh have nf: "find (\<lambda>ad. advert_id (h ! ad) = advert_id (h ! a)) (issue_entries self d) = None"
    by (simp add: find_None_all)
  show ?thesis
    using obj by (simp add: append_path [OF nc nf] guard_rejects_only_cancelled Advert_init_def)
qed

theorem published_advert_placed_witness:
  "0 < length [example_advert ''Published'']
   \<and> status ([example_advert ''Published''] ! 0) = ''Published''
   \<and> update_advert_in_issue example_editor [example_advert ''Published''] 0 ''2025-03-01'' =
       (Inr (), example_editor\<lparr>magazine_issues := [''2025-03-01'' \<mapsto> [0]]\<rparr>,
        [example_advert ''Approved''])"
proof -
  let ?h = "[example_advert ''Published'']"
  have a1: "0 < length ?h" by simp
  have a2: "status (?h ! 0) = ''Published''"
    by (simp add: example_advert_def Advert_init_def)
  have a3: "\<forall>ad \<in> set (issue_entries example_editor ''2025-03-01'').
              advert_id (?h ! ad) \<noteq> advert_id (?h ! 0)"
    by (simp add: issue_entries_def example_editor_def)
  from a1 a2 published_advert_placed [OF a1 a2 a3]
  show ?thesis
    by (simp add: issue_entries_def example_editor_def example_advert_def Advert_init_def)
qed

subsection \<open>The processing centre\<close>

text \<open>
  Claim C5. For every advert whose status is not \<^verbatim>\<open>Approved\<close>, \<^verbatim>\<open>store_advert\<close> fails
  with the \<^verbatim>\<open>ValueError\<close> of an invalid transition and leaves the stored sequence
  unchanged. For an advert with status \<^verbatim>\<open>Approved\<close> it appends the advert once per
  call, so that a second call stores it a second time, and no advert is changed.
\<close>

theorem store_advert_guard:
  "(status (h ! a) \<noteq> ''Approved'' \<longrightarrow>
      store_advert self h a = (Inl (ValueError ''Only approved adverts can be stored.''), self, h))
   \<and> (status (h ! a) = ''Approved'' \<longrightarrow>
      store_advert self h a = (Inr (), self\<lparr>stored_adverts := stored_adverts self @ [a]\<rparr>, h)
      \<and> count_list (stored_adverts self @ [a]) a = count_list (stored_adverts self) a + 1
      \<and> store_advert (self\<lparr>stored_adverts := stored_adverts self @ [a]\<rparr>) h a =
          (Inr (), self\<lparr>stored_adverts := stored_adverts self @ [a, a]\<rparr>, h))"
  by (simp add: store_advert_def)

theorem store_advert_guard_witness:
  "store_advert example_processing [example_advert ''Pending''] 0 =
     (Inl (ValueError ''Only approved adverts can be stored.''), example_processing,
      [example_advert ''Pending''])
   \<and> store_advert example_processing [example_advert ''Cancelled''] 0 =
     (Inl (ValueError ''Only approved adverts can be stored.''), example_processing,
      [example_advert ''Cancelled''])
   \<and> store_advert example_processing [example_advert ''Approved''] 0 =
     (Inr (), example_processing\<lparr>stored_adverts := [0]\<rparr>, [example_advert ''Approved''])
   \<and> store_advert (example_processing\<lparr>stored_adverts := [0]\<rparr>) [example_advert ''Approved''] 0 =
     (Inr (), example_processing\<lparr>stored_adverts := [0, 0]\<rparr>, [example_advert ''Approved''])"
  using store_advert_guard [of "[example_advert ''Pending'']" 0 example_processing]
    store_advert_guard [of "[example_advert ''Cancelled'']" 0 example_processing]
    store_advert_guard [of "[example_advert ''Approved'']" 0 example_processing]
  by (simp add: example_advert_def Advert_init_def example_processing_def)

subsection \<open>The command invoker\<close>

text \<open>
  Claim C2. When every command of the queue succeeds, \<^verbatim>\<open>execute_commands\<close> runs the
  commands in the order of the queue, which is the order in which \<^verbatim>\<open>add_command\<close>
  enqueued them, each on the world the one before it left; it returns their results in
  that order and leaves the queue empty. On the empty queue it returns the empty list and
  changes nothing.
\<close>

theorem execute_commands_fifo:
  assumes ok: "\<forall>i<length (command_queue self). \<not> isl (result_at (command_queue self) w i)"
  shows "execute_commands self w =
           (Inr (map (\<lambda>i. projr (result_at (command_queue self) w i))
                   [0..<length (command_queue self)]),
            self\<lparr>command_queue := []\<rparr>,
            state_after (command_queue self) w)
         \<and> command_queue (foldl add_command CommandInvoker_init cs) = cs
         \<and> execute_commands CommandInvoker_init w = (Inr [], CommandInvoker_init, w)"
proof -
  have enq: "command_queue (foldl add_command inv cs) = command_queue inv @ cs" for inv
    by (induction cs arbitrary: inv) (simp_all add: add_command_def)
  show ?thesis
    by (simp add: execute_commands_def execute_loop_all_succeed [OF ok] enq
          CommandInvoker_init_def)
qed

theorem execute_commands_fifo_witness:
  "execute_commands \<lparr>command_queue = script_queue_create_update\<rparr> script_world_start =
     (Inr [PyObj 0, PyStr ''Advert AD001 updated successfully.''],
      \<lparr>command_queue = []\<rparr>,
      script_world_start
        \<lparr>heap := [script_advert ''Pending''],
         marketing_objs := [example_marketing\<lparr>adverts := [''AD001'' \<mapsto> 0]\<rparr>]\<rparr>)"
proof -
  let ?inv = "\<lparr>command_queue = script_queue_create_update\<rparr>"
  have r0: "execute (script_queue_create_update ! 0) script_world_start =
      (Inr (PyObj 0),
       script_world_start\<lparr>heap := [example_advert ''Pending''],
         marketing_objs := [example_marketing\<lparr>adverts := [''AD001'' \<mapsto> 0]\<rparr>]\<rparr>)"
    by (simp add: script_queue_create_update_def script_world_start_def create_advert_def
          valid_sizes_def valid_date_example example_marketing_def example_advert_def)
  have r1: "execute (script_queue_create_update ! 1)
              (script_world_start\<lparr>heap := [example_advert ''Pending''],
                 marketing_objs := [example_marketing\<lparr>adverts := [''AD001'' \<mapsto> 0]\<rparr>]\<rparr>) =
      (Inr (PyStr ''Advert AD001 updated successfully.''),
       script_world_start
        \<lparr>heap := [script_advert ''Pending''],
         marketing_objs := [example_marketing\<lparr>adverts := [''AD001'' \<mapsto> 0]\<rparr>]\<rparr>)"
    by (simp add: script_queue_create_update_def script_world_start_def update_advert_def
          update_details_def example_marketing_def example_advert_def script_advert_def
          Advert_init_def)
  have a0: "result_at script_queue_create_update script_world_start 0 = Inr (PyObj 0)"
    by (simp add: result_at_def state_after_def r0)
  have t1: "take (Suc 0) script_queue_create_update = [script_queue_create_update ! 0]"
    by (simp add: script_queue_create_update_def)
  have a1: "result_at script_queue_create_update script_world_start 1 =
      Inr (PyStr ''Advert AD001 updated successfully.'')"
    using r1 by (simp add: result_at_def state_after_def t1 r0)
  have len: "length script_queue_create_update = 2"
    by (simp add: script_queue_create_update_def)
  have fin: "state_after script_queue_create_update script_world_start =
      script_world_start
        \<lparr>heap := [script_advert ''Pending''],
         marketing_objs := [example_marketing\<lparr>adverts := [''AD001'' \<mapsto> 0]\<rparr>]\<rparr>"
    using r0 r1 by (simp add: state_after_def script_queue_create_update_def)
  have ok: "\<forall>i<length (command_queue ?inv). \<not> isl (result_at (command_queue ?inv) script_world_start i)"
  proof (intro allI impI)
    fix i assume "i < length (command_queue ?inv)"
    then have "i = 0 \<or> i = 1" by (auto simp: len)
    then show "\<not> isl (result_at (command_queue ?inv) script_world_start i)"
      using a0 a1 by auto
  qed
  have "[0..<2] = [0, Suc 0]" by (simp add: upt_rec)
  with execute_commands_fifo [OF ok, THEN conjunct1] a0 a1 fin len
  show ?thesis by simp
qed

text \<open>
  Claim C1, as the code has it. When the commands before position \<open>k\<close> succeed and the
  one at \<open>k\<close> fails, \<^verbatim>\<open>execute_commands\<close> stops there: the world is the one the commands
  before \<open>k\<close> left, the failure reaches the caller as it was raised, the failing command is
  gone from the queue and the commands behind it are still queued. The caller receives
  the failure only: the results of the commands before \<open>k\<close> are not returned.
\<close>

theorem execute_commands_stops_at_failure:
  assumes k: "k < length (command_queue self)"
    and before: "\<forall>i<k. \<not> isl (result_at (command_queue self) w i)"
    and fails: "result_at (command_queue self) w k = Inl e"
  shows "execute_commands self w =
           (Inl e, self\<lparr>command_queue := drop (Suc k) (command_queue self)\<rparr>,
            state_after (take k (command_queue self)) w)"
  by (simp add: execute_commands_def execute_loop_stops [OF k before fails]
        failing_command_keeps_state [OF k fails])

theorem execute_commands_stops_at_failure_witness:
  "execute_commands \<lparr>command_queue = script_queue_cancel_place @ [StoreAdvertCommand 0 0]\<rparr>
       script_world_stored =
     (Inl (ValueError ''Cannot add or update a cancelled advert in the magazine.''),
      \<lparr>command_queue = [StoreAdvertCommand 0 0]\<rparr>,
      script_world_stored\<lparr>heap := [script_advert ''Cancelled'']\<rparr>)"
proof -
  let ?q = "script_queue_cancel_place @ [StoreAdvertCommand 0 0]"
  let ?inv = "\<lparr>command_queue = ?q\<rparr>"
  have k: "1 < length (command_queue ?inv)"
    by (simp add: script_queue_cancel_place_def)
  have before: "\<forall>i<1. \<not> isl (result_at (command_queue ?inv) script_world_stored i)"
    by (simp add: cancel_place_outcomes)
  have fails: "result_at (command_queue ?inv) script_world_stored 1 =
      Inl (ValueError ''Cannot add or update a cancelled advert in the magazine.'')"
    using cancel_place_outcomes(2) [of "[StoreAdvertCommand 0 0]"] by simp
  from execute_commands_stops_at_failure [OF k before fails]
    cancel_place_outcomes(3) [of "[StoreAdvertCommand 0 0]"]
  show ?thesis
    by (simp add: script_queue_cancel_place_def)
qed

text \<open>
  The claim as the specification words it (the results of the commands before the failing
  one are returned) fails on the last batch of the script: the cancellation succeeds with
  a message, placing the cancelled advert fails, and the call yields the failure, not the
  list holding the message.
\<close>

theorem partial_results_not_returned_counterexample:
  "result_at script_queue_cancel_place script_world_stored 0 =
     Inr (PyStr ''Advert AD001 cancelled successfully.'')
   \<and> result_at script_queue_cancel_place script_world_stored 1 =
     Inl (ValueError ''Cannot add or update a cancelled advert in the magazine.'')
   \<and> fst (execute_commands \<lparr>command_queue = script_queue_cancel_place\<rparr> script_world_stored) =
     Inl (ValueError ''Cannot add or update a cancelled advert in the magazine.'')
   \<and> fst (execute_commands \<lparr>command_queue = script_queue_cancel_place\<rparr> script_world_stored) \<noteq>
     Inr [PyStr ''Advert AD001 cancelled successfully.'']"
  using cancel_place_outcomes(1,2) [of "[]"]
  by (simp add: execute_commands_def script_queue_cancel_place_def
        script_world_stored_def cancel_advert_def Advert_cancel_advert_def
        update_advert_in_issue_def example_marketing_def script_advert_def Advert_init_def)

end
